theory Spec2Isabelle
  imports Main
begin

section \<open>Index permission panel of the role editor\<close>

text \<open>
  Shallow embedding of
  \<^verbatim>\<open>public/apps/configuration/panels/role-edit/index-permission-panel.tsx\<close>:
  the conversion between the wire shape of an index permission and the editable
  state of the panel, the summary text of every collapsible section, and the add
  and remove actions on the array owned by the parent page.
\<close>

subsection \<open>Data model\<close>

text \<open>
  Modelled from the spec: the type \<^verbatim>\<open>ComboBoxOptions\<close> is declared in
  \<^verbatim>\<open>./types\<close>, which is not part of the sources at hand. The spec calls an option a
  string-like token that has a string form; an option is a record carrying that
  string as its label.
\<close>

record ComboBoxOption =
  label :: string

type_synonym ComboBoxOptions = "ComboBoxOption list"

text \<open>
  Modelled from the spec: \<^verbatim>\<open>FieldLevelSecurityMethod\<close> is declared in
  \<^verbatim>\<open>./types\<close>; the spec gives it as the enumeration of include and exclude,
  the two literals \<^verbatim>\<open>'include'\<close> and \<^verbatim>\<open>'exclude'\<close> of the source.
\<close>

datatype FieldLevelSecurityMethod = Include | Exclude

text \<open>
  Modelled from the spec: \<^verbatim>\<open>RoleIndexPermission\<close> (declared in
  \<^verbatim>\<open>../../types\<close>) is the wire shape, with the five fields that
  \<^verbatim>\<open>unbuildIndexPermissionState\<close> writes.
\<close>

record RoleIndexPermission =
  index_patterns :: "string list"
  dls :: string
  fls :: "string list"
  masked_fields :: "string list"
  allowed_actions :: "string list"

text \<open>
  Modelled from the spec: \<^verbatim>\<open>RoleIndexPermissionStateClass\<close> (declared in
  \<^verbatim>\<open>./types\<close>) is the editable entry, with the six fields that
  \<^verbatim>\<open>getEmptyIndexPermission\<close> writes.
\<close>

record RoleIndexPermissionStateClass =
  indexPatterns :: ComboBoxOptions
  allowedActions :: ComboBoxOptions
  docLevelSecurity :: string
  fieldLevelSecurityMethod :: FieldLevelSecurityMethod
  fieldLevelSecurityFields :: ComboBoxOptions
  maskedFields :: ComboBoxOptions

subsection \<open>Combo box helpers\<close>

text \<open>
  Modelled from the spec: \<^verbatim>\<open>stringToComboBoxOption\<close> lives in
  \<^verbatim>\<open>../../utils/combo-box-utils\<close>, which is not part of the sources at hand. By
  the spec each token becomes a selectable option.
\<close>

definition stringToComboBoxOption :: "string \<Rightarrow> ComboBoxOption" where
  "stringToComboBoxOption option = \<lparr>label = option\<rparr>"

text \<open>
  Modelled from the spec: \<^verbatim>\<open>comboBoxOptionToString\<close> lives in
  \<^verbatim>\<open>../../utils/combo-box-utils\<close> as well. By the spec each option is converted
  to its string form.
\<close>

definition comboBoxOptionToString :: "ComboBoxOption \<Rightarrow> string" where
  "comboBoxOptionToString option = label option"

subsection \<open>String primitives of the language\<close>

text \<open>
  A string is the list of its characters. The functions below only test and move
  the tilde, which is a single character in the source language as well.
\<close>

text \<open>\<^verbatim>\<open>s.startsWith(p)\<close>: the first characters of \<open>s\<close> are those of \<open>p\<close>.\<close>

definition startsWith :: "string \<Rightarrow> string \<Rightarrow> bool" where
  "startsWith s p = (take (length p) s = p)"

text \<open>
  \<^verbatim>\<open>s.replace(/^~/, '')\<close>: the pattern is anchored at the start of the string and
  has no global flag, so one tilde is removed, and only at position 0.
\<close>

fun replaceLeadingTilde :: "string \<Rightarrow> string" where
  "replaceLeadingTilde [] = []"
| "replaceLeadingTilde (c # cs) = (if c = CHR ''~'' then cs else c # cs)"

text \<open>\<^verbatim>\<open>xs.join(sep)\<close> on an array of strings.\<close>

fun join :: "string list \<Rightarrow> string \<Rightarrow> string" where
  "join [] sep = []"
| "join [x] sep = x"
| "join (x # y # ys) sep = x @ sep @ join (y # ys) sep"

text \<open>
  \<^verbatim>\<open>a || b\<close> on strings: the empty string is the only string that counts as
  false, so \<open>b\<close> is taken exactly when \<open>a\<close> is empty.
\<close>

definition orElse :: "string \<Rightarrow> string \<Rightarrow> string" where
  "orElse a b = (if a = [] then b else a)"

subsection \<open>Conversion between the wire shape and the panel state\<close>

definition getEmptyIndexPermission :: RoleIndexPermissionStateClass where
  "getEmptyIndexPermission =
     \<lparr>indexPatterns = [],
      allowedActions = [],
      docLevelSecurity = '''',
      fieldLevelSecurityMethod = Exclude,
      fieldLevelSecurityFields = [],
      maskedFields = []\<rparr>"

definition getFieldLevelSecurityMethod :: "string list \<Rightarrow> FieldLevelSecurityMethod" where
  "getFieldLevelSecurityMethod fieldLevelSecurityRawFields =
     (if list_ex (\<lambda>s. startsWith s ''~'') fieldLevelSecurityRawFields
      then Exclude else Include)"

definition getFieldLevelSecurityFields :: "string list \<Rightarrow> ComboBoxOptions" where
  "getFieldLevelSecurityFields fieldLevelSecurityRawFields =
     map stringToComboBoxOption (map replaceLeadingTilde fieldLevelSecurityRawFields)"

definition packFieldLevelSecurity ::
    "FieldLevelSecurityMethod \<Rightarrow> ComboBoxOptions \<Rightarrow> string list" where
  "packFieldLevelSecurity method fieldOptions =
     (let fields = map comboBoxOptionToString fieldOptions
      in if method = Include then fields
         else map (\<lambda>field. ''~'' @ field) fields)"

definition buildIndexPermissionState ::
    "RoleIndexPermission list \<Rightarrow> RoleIndexPermissionStateClass list" where
  "buildIndexPermissionState indexPerm =
     map (\<lambda>perm.
       \<lparr>indexPatterns = map stringToComboBoxOption (index_patterns perm),
        allowedActions = [],
        docLevelSecurity = dls perm,
        fieldLevelSecurityMethod = getFieldLevelSecurityMethod (fls perm),
        fieldLevelSecurityFields = getFieldLevelSecurityFields (fls perm),
        maskedFields = []\<rparr>) indexPerm"

definition unbuildIndexPermissionState ::
    "RoleIndexPermissionStateClass list \<Rightarrow> RoleIndexPermission list" where
  "unbuildIndexPermissionState indexPerm =
     map (\<lambda>perm.
       \<lparr>index_patterns = map comboBoxOptionToString (indexPatterns perm),
        dls = docLevelSecurity perm,
        fls = packFieldLevelSecurity (fieldLevelSecurityMethod perm)
                (fieldLevelSecurityFields perm),
        masked_fields = map comboBoxOptionToString (maskedFields perm),
        allowed_actions = map comboBoxOptionToString (allowedActions perm)\<rparr>) indexPerm"

subsection \<open>Array state helpers\<close>

text \<open>
  The helpers of \<^verbatim>\<open>../../utils/array-state-utils\<close> are not part of the sources at
  hand. By the spec every mutation of the parent array replaces the array by a new
  one through the state setter; the setter becomes explicit state passing: the
  previous array goes in, the next one comes out. The panel passes the empty path
  \<^verbatim>\<open>[]\<close> to both helpers, which stands for the array itself and has no counterpart
  here.
\<close>

text \<open>
  Modelled from the spec: \<^verbatim>\<open>appendElementToArray\<close> is missing; by the spec the
  add action appends the given entry to the parent array.
\<close>

definition appendElementToArray :: "'a list \<Rightarrow> 'a \<Rightarrow> 'a list" where
  "appendElementToArray prevState newElement = prevState @ [newElement]"

text \<open>
  Modelled from the spec: \<^verbatim>\<open>removeElementFromArray\<close> is missing; by the spec the
  delete action removes the entry at the given index from the parent array. An
  index beyond the last entry has nothing to remove.
\<close>

definition removeElementFromArray :: "'a list \<Rightarrow> nat \<Rightarrow> 'a list" where
  "removeElementFromArray prevState index = take index prevState @ drop (Suc index) prevState"

subsection \<open>The rendered panel\<close>

text \<open>
  What \<^verbatim>\<open>generateIndexPermissionPanels\<close> renders for one entry: the summary text
  of the collapsible section and the click handler of its remove button, a function
  from the previous array to the next. The five form rows of the body only forward
  the attributes of the entry to their inputs and are left out.
\<close>

record IndexPermissionAccordion =
  buttonContent :: string
  onRemoveClick :: "RoleIndexPermissionStateClass list \<Rightarrow> RoleIndexPermissionStateClass list"

definition generateIndexPermissionPanels ::
    "RoleIndexPermissionStateClass list \<Rightarrow> IndexPermissionAccordion list" where
  "generateIndexPermissionPanels indexPermissions =
     map (\<lambda>(permission, arrayIndex).
       \<lparr>buttonContent =
          orElse (join (map comboBoxOptionToString (indexPatterns permission)) '', '')
            ''Add index permission'',
        onRemoveClick = (\<lambda>prevState. removeElementFromArray prevState arrayIndex)\<rparr>)
       (zip indexPermissions [0..<length indexPermissions])"

text \<open>
  \<^verbatim>\<open>IndexPermissionPanel\<close>: the sections of the entries, and the click handler of
  the button that adds another index permission.
\<close>

record IndexPermissionPanelView =
  panels :: "IndexPermissionAccordion list"
  onAddClick :: "RoleIndexPermissionStateClass list \<Rightarrow> RoleIndexPermissionStateClass list"

definition IndexPermissionPanel ::
    "RoleIndexPermissionStateClass list \<Rightarrow> IndexPermissionPanelView" where
  "IndexPermissionPanel state =
     \<lparr>panels = generateIndexPermissionPanels state,
      onAddClick = (\<lambda>prevState. appendElementToArray prevState getEmptyIndexPermission)\<rparr>"

section \<open>Basic facts\<close>

lemma comboBoxOption_string_inverse:
  "comboBoxOptionToString (stringToComboBoxOption s) = s"
  by (simp add: comboBoxOptionToString_def stringToComboBoxOption_def)

lemma startsWith_tilde_iff:
  "startsWith s ''~'' \<longleftrightarrow> (\<exists>r. s = CHR ''~'' # r)"
  by (cases s) (auto simp: startsWith_def)

lemma replaceLeadingTilde_marked:
  "startsWith s ''~'' \<Longrightarrow> CHR ''~'' # replaceLeadingTilde s = s"
  by (auto simp: startsWith_tilde_iff)

lemma replaceLeadingTilde_unmarked:
  "\<not> startsWith s ''~'' \<Longrightarrow> replaceLeadingTilde s = s"
  by (cases s) (auto simp: startsWith_tilde_iff)

lemma map_replaceLeadingTilde_marked:
  "\<forall>t\<in>set ts. startsWith t ''~'' \<Longrightarrow>
     map (\<lambda>field. ''~'' @ field) (map replaceLeadingTilde ts) = ts"
  by (induction ts) (simp_all add: replaceLeadingTilde_marked)

lemma map_replaceLeadingTilde_unmarked:
  "\<forall>t\<in>set ts. \<not> startsWith t ''~'' \<Longrightarrow> map replaceLeadingTilde ts = ts"
  by (induction ts) (simp_all add: replaceLeadingTilde_unmarked)

lemma pack_after_get:
  "packFieldLevelSecurity (getFieldLevelSecurityMethod ts) (getFieldLevelSecurityFields ts) =
     (if \<exists>t\<in>set ts. startsWith t ''~''
      then map (\<lambda>field. ''~'' @ field) (map replaceLeadingTilde ts)
      else map replaceLeadingTilde ts)"
  by (simp add: packFieldLevelSecurity_def getFieldLevelSecurityMethod_def
      getFieldLevelSecurityFields_def list_ex_iff comboBoxOption_string_inverse)

lemma unbuild_build_single:
  "unbuildIndexPermissionState (buildIndexPermissionState [p]) =
     [\<lparr>index_patterns = index_patterns p,
       dls = dls p,
       fls = packFieldLevelSecurity (getFieldLevelSecurityMethod (fls p))
               (getFieldLevelSecurityFields (fls p)),
       masked_fields = [],
       allowed_actions = []\<rparr>]"
  by (simp add: unbuildIndexPermissionState_def buildIndexPermissionState_def
      comboBoxOption_string_inverse comp_def)

lemma pack_after_get_uniform:
  assumes "ts = [] \<or> (\<forall>t\<in>set ts. startsWith t ''~'') \<or> (\<forall>t\<in>set ts. \<not> startsWith t ''~'')"
  shows "packFieldLevelSecurity (getFieldLevelSecurityMethod ts)
           (getFieldLevelSecurityFields ts) = ts"
proof (cases "\<exists>t\<in>set ts. startsWith t ''~''")
  case True
  with assms have "\<forall>t\<in>set ts. startsWith t ''~''" by auto
  with True show ?thesis
    by (simp only: pack_after_get if_True map_replaceLeadingTilde_marked)
next
  case False
  then have "\<forall>t\<in>set ts. \<not> startsWith t ''~''" by simp
  with False show ?thesis
    by (simp only: pack_after_get if_False map_replaceLeadingTilde_unmarked)
qed

section \<open>Round trip from the wire shape\<close>

text \<open>
  C1. For every wire permission \<open>p\<close> whose \<open>fls\<close> list is empty, has every
  element prefixed with the tilde, or has no element prefixed with it, building the
  state of \<open>[p]\<close> and unbuilding it gives a list of one element whose \<open>fls\<close>,
  \<open>index_patterns\<close> and \<open>dls\<close> are those of \<open>p\<close> and whose \<open>allowed_actions\<close> and
  \<open>masked_fields\<close> are empty.
\<close>

theorem unbuild_build_uniform_fls:
  assumes "fls p = [] \<or> (\<forall>t\<in>set (fls p). startsWith t ''~'')
             \<or> (\<forall>t\<in>set (fls p). \<not> startsWith t ''~'')"
  shows "unbuildIndexPermissionState (buildIndexPermissionState [p]) =
           [\<lparr>index_patterns = index_patterns p,
             dls = dls p,
             fls = fls p,
             masked_fields = [],
             allowed_actions = []\<rparr>]"
  using pack_after_get_uniform [OF assms] by (simp add: unbuild_build_single)

theorem unbuild_build_uniform_fls_witness:
  "startsWith ''~secret'' ''~'' \<and> startsWith ''~~raw'' ''~''
   \<and> unbuildIndexPermissionState (buildIndexPermissionState
         [\<lparr>index_patterns = [''logs-*'', ''''], dls = ''{}'',
           fls = [''~secret'', ''~~raw''],
           masked_fields = [''ssn''], allowed_actions = [''read'']\<rparr>]) =
       [\<lparr>index_patterns = [''logs-*'', ''''], dls = ''{}'',
         fls = [''~secret'', ''~~raw''],
         masked_fields = [], allowed_actions = []\<rparr>]"
proof -
  let ?p = "\<lparr>index_patterns = [''logs-*'', ''''], dls = ''{}'',
             fls = [''~secret'', ''~~raw''],
             masked_fields = [''ssn''], allowed_actions = [''read'']\<rparr>"
  have marked: "startsWith ''~secret'' ''~'' \<and> startsWith ''~~raw'' ''~''"
    by (simp add: startsWith_def)
  then have "fls ?p = [] \<or> (\<forall>t\<in>set (fls ?p). startsWith t ''~'')
               \<or> (\<forall>t\<in>set (fls ?p). \<not> startsWith t ''~'')"
    by simp
  from unbuild_build_uniform_fls [OF this] marked show ?thesis
    by simp
qed

section \<open>From the wire shape to the panel state\<close>

text \<open>
  C2. For every list of wire permissions, the entry built for a permission has the
  method exclude exactly when some token of its \<open>fls\<close> starts with the tilde, and
  include otherwise; its field options are the tokens, each without its leading
  tilde if it has one, converted to options. In particular the method of \<open>[]\<close> is
  include, and the methods of \<open>[~a]\<close> and \<open>[a, ~b]\<close> are exclude.
\<close>

theorem build_field_level_security:
  "length (buildIndexPermissionState ps) = length ps
   \<and> (\<forall>i<length ps.
         fieldLevelSecurityMethod (buildIndexPermissionState ps ! i) =
           (if \<exists>t\<in>set (fls (ps ! i)). \<exists>r. t = CHR ''~'' # r then Exclude else Include)
         \<and> fieldLevelSecurityFields (buildIndexPermissionState ps ! i) =
             map (\<lambda>t. stringToComboBoxOption (if startsWith t ''~'' then drop 1 t else t))
               (fls (ps ! i)))
   \<and> getFieldLevelSecurityMethod [] = Include
   \<and> getFieldLevelSecurityMethod [''~a''] = Exclude
   \<and> getFieldLevelSecurityMethod [''a'', ''~b''] = Exclude"
proof -
  have strip: "replaceLeadingTilde t = (if startsWith t ''~'' then drop 1 t else t)" for t
    by (cases t) (auto simp: startsWith_def)
  have method_eq: "getFieldLevelSecurityMethod ts =
      (if \<exists>t\<in>set ts. \<exists>r. t = CHR ''~'' # r then Exclude else Include)" for ts
    by (simp add: getFieldLevelSecurityMethod_def list_ex_iff startsWith_tilde_iff)
  have fields_eq: "getFieldLevelSecurityFields ts =
      map (\<lambda>t. stringToComboBoxOption (if startsWith t ''~'' then drop 1 t else t)) ts" for ts
    by (simp add: getFieldLevelSecurityFields_def strip comp_def)
  have entries: "\<forall>i<length ps.
         fieldLevelSecurityMethod (buildIndexPermissionState ps ! i) =
           (if \<exists>t\<in>set (fls (ps ! i)). \<exists>r. t = CHR ''~'' # r then Exclude else Include)
         \<and> fieldLevelSecurityFields (buildIndexPermissionState ps ! i) =
             map (\<lambda>t. stringToComboBoxOption (if startsWith t ''~'' then drop 1 t else t))
               (fls (ps ! i))"
    by (simp add: buildIndexPermissionState_def method_eq fields_eq)
  have examples: "getFieldLevelSecurityMethod [] = Include
      \<and> getFieldLevelSecurityMethod [''~a''] = Exclude
      \<and> getFieldLevelSecurityMethod [''a'', ''~b''] = Exclude"
    by (simp add: getFieldLevelSecurityMethod_def startsWith_def)
  have "length (buildIndexPermissionState ps) = length ps"
    by (simp add: buildIndexPermissionState_def)
  with entries examples show ?thesis
    by blast
qed

theorem build_field_level_security_witness:
  "map fieldLevelSecurityMethod (buildIndexPermissionState
      [\<lparr>index_patterns = [''a*''], dls = '''', fls = [''name'', ''~ssn'', ''~~x''],
        masked_fields = [], allowed_actions = [''read'']\<rparr>,
       \<lparr>index_patterns = [''b*''], dls = '''', fls = [''name'', ''a~b''],
        masked_fields = [], allowed_actions = []\<rparr>]) = [Exclude, Include]
   \<and> map fieldLevelSecurityFields (buildIndexPermissionState
      [\<lparr>index_patterns = [''a*''], dls = '''', fls = [''name'', ''~ssn'', ''~~x''],
        masked_fields = [], allowed_actions = [''read'']\<rparr>,
       \<lparr>index_patterns = [''b*''], dls = '''', fls = [''name'', ''a~b''],
        masked_fields = [], allowed_actions = []\<rparr>]) =
      [[\<lparr>label = ''name''\<rparr>, \<lparr>label = ''ssn''\<rparr>, \<lparr>label = ''~x''\<rparr>],
       [\<lparr>label = ''name''\<rparr>, \<lparr>label = ''a~b''\<rparr>]]"
proof -
  let ?ps = "[\<lparr>index_patterns = [''a*''], dls = '''', fls = [''name'', ''~ssn'', ''~~x''],
        masked_fields = [], allowed_actions = [''read'']\<rparr>,
       \<lparr>index_patterns = [''b*''], dls = '''', fls = [''name'', ''a~b''],
        masked_fields = [], allowed_actions = []\<rparr>]"
  have len: "length (buildIndexPermissionState ?ps) = 2"
    using build_field_level_security [of ?ps] by simp
  have e0: "fieldLevelSecurityMethod (buildIndexPermissionState ?ps ! 0) = Exclude
      \<and> fieldLevelSecurityFields (buildIndexPermissionState ?ps ! 0) =
          [\<lparr>label = ''name''\<rparr>, \<lparr>label = ''ssn''\<rparr>, \<lparr>label = ''~x''\<rparr>]"
    using build_field_level_security [of ?ps]
    by (simp add: startsWith_def stringToComboBoxOption_def)
  have e1: "fieldLevelSecurityMethod (buildIndexPermissionState ?ps ! 1) = Include
      \<and> fieldLevelSecurityFields (buildIndexPermissionState ?ps ! 1) =
          [\<lparr>label = ''name''\<rparr>, \<lparr>label = ''a~b''\<rparr>]"
    using build_field_level_security [of ?ps]
    by (simp add: startsWith_def stringToComboBoxOption_def)
  obtain x y where xy: "buildIndexPermissionState ?ps = [x, y]"
    using len by (auto simp: length_Suc_conv numeral_2_eq_2)
  from e0 e1 show ?thesis
    unfolding xy by simp
qed

text \<open>
  C4. For every list of wire permissions, every entry that
  \<open>buildIndexPermissionState\<close> produces has no allowed action and no masked field,
  whatever \<open>allowed_actions\<close> and \<open>masked_fields\<close> hold on the wire.
\<close>

theorem build_leaves_actions_and_masks_empty:
  "\<forall>e\<in>set (buildIndexPermissionState ps). allowedActions e = [] \<and> maskedFields e = []"
  by (auto simp: buildIndexPermissionState_def)

theorem build_leaves_actions_and_masks_empty_witness:
  "map allowedActions (buildIndexPermissionState
      [\<lparr>index_patterns = [''a*''], dls = ''q'', fls = [''~f''],
        masked_fields = [''ssn'', ''ip''], allowed_actions = [''read'', ''write'']\<rparr>]) = [[]]
   \<and> map maskedFields (buildIndexPermissionState
      [\<lparr>index_patterns = [''a*''], dls = ''q'', fls = [''~f''],
        masked_fields = [''ssn'', ''ip''], allowed_actions = [''read'', ''write'']\<rparr>]) = [[]]"
proof -
  let ?ps = "[\<lparr>index_patterns = [''a*''], dls = ''q'', fls = [''~f''],
        masked_fields = [''ssn'', ''ip''], allowed_actions = [''read'', ''write'']\<rparr>]"
  have "length (buildIndexPermissionState ?ps) = 1"
    by (simp add: buildIndexPermissionState_def)
  then obtain e where e: "buildIndexPermissionState ?ps = [e]"
    by (auto simp: length_Suc_conv)
  with build_leaves_actions_and_masks_empty [of ?ps]
  have "allowedActions e = [] \<and> maskedFields e = []"
    by simp
  with e show ?thesis
    by simp
qed

section \<open>From the panel state to the wire shape\<close>

text \<open>
  C3. \<open>packFieldLevelSecurity\<close> converts every field option to its string and
  prepends the tilde to every string exactly when the method is exclude: for include
  the options of \<open>a\<close> and \<open>b\<close> give \<open>[a, b]\<close>, for exclude they give \<open>[~a, ~b]\<close>.
  \<open>unbuildIndexPermissionState\<close> takes this list as \<open>fls\<close>, takes the string forms
  of the index patterns, masked fields and allowed actions, and copies the document
  level security into \<open>dls\<close>.
\<close>

theorem pack_and_unbuild:
  "packFieldLevelSecurity Include opts = map comboBoxOptionToString opts
   \<and> packFieldLevelSecurity Exclude opts = map (\<lambda>opt. CHR ''~'' # comboBoxOptionToString opt) opts
   \<and> packFieldLevelSecurity Include [stringToComboBoxOption a, stringToComboBoxOption b] = [a, b]
   \<and> packFieldLevelSecurity Exclude [stringToComboBoxOption a, stringToComboBoxOption b] =
       [CHR ''~'' # a, CHR ''~'' # b]
   \<and> length (unbuildIndexPermissionState es) = length es
   \<and> (\<forall>i<length es.
         fls (unbuildIndexPermissionState es ! i) =
           packFieldLevelSecurity (fieldLevelSecurityMethod (es ! i))
             (fieldLevelSecurityFields (es ! i))
         \<and> index_patterns (unbuildIndexPermissionState es ! i) =
             map comboBoxOptionToString (indexPatterns (es ! i))
         \<and> masked_fields (unbuildIndexPermissionState es ! i) =
             map comboBoxOptionToString (maskedFields (es ! i))
         \<and> allowed_actions (unbuildIndexPermissionState es ! i) =
             map comboBoxOptionToString (allowedActions (es ! i))
         \<and> dls (unbuildIndexPermissionState es ! i) = docLevelSecurity (es ! i))"
proof -
  have pack: "packFieldLevelSecurity Include opts = map comboBoxOptionToString opts
      \<and> packFieldLevelSecurity Exclude opts =
          map (\<lambda>opt. CHR ''~'' # comboBoxOptionToString opt) opts" for opts
    by (simp add: packFieldLevelSecurity_def comp_def)
  have examples:
    "packFieldLevelSecurity Include [stringToComboBoxOption a, stringToComboBoxOption b] = [a, b]
     \<and> packFieldLevelSecurity Exclude [stringToComboBoxOption a, stringToComboBoxOption b] =
         [CHR ''~'' # a, CHR ''~'' # b]"
    by (simp add: pack comboBoxOption_string_inverse)
  have entries: "length (unbuildIndexPermissionState es) = length es
   \<and> (\<forall>i<length es.
         fls (unbuildIndexPermissionState es ! i) =
           packFieldLevelSecurity (fieldLevelSecurityMethod (es ! i))
             (fieldLevelSecurityFields (es ! i))
         \<and> index_patterns (unbuildIndexPermissionState es ! i) =
             map comboBoxOptionToString (indexPatterns (es ! i))
         \<and> masked_fields (unbuildIndexPermissionState es ! i) =
             map comboBoxOptionToString (maskedFields (es ! i))
         \<and> allowed_actions (unbuildIndexPermissionState es ! i) =
             map comboBoxOptionToString (allowedActions (es ! i))
         \<and> dls (unbuildIndexPermissionState es ! i) = docLevelSecurity (es ! i))"
    by (simp add: unbuildIndexPermissionState_def)
  from pack [of opts] examples entries show ?thesis
    by blast
qed

theorem pack_and_unbuild_witness:
  "unbuildIndexPermissionState
     [\<lparr>indexPatterns = [\<lparr>label = ''logs-*''\<rparr>],
       allowedActions = [\<lparr>label = ''read''\<rparr>, \<lparr>label = ''search''\<rparr>],
       docLevelSecurity = ''{match_all}'',
       fieldLevelSecurityMethod = Exclude,
       fieldLevelSecurityFields = [\<lparr>label = ''a''\<rparr>, \<lparr>label = ''b''\<rparr>],
       maskedFields = [\<lparr>label = ''ssn''\<rparr>]\<rparr>] =
     [\<lparr>index_patterns = [''logs-*''],
       dls = ''{match_all}'',
       fls = [''~a'', ''~b''],
       masked_fields = [''ssn''],
       allowed_actions = [''read'', ''search'']\<rparr>]"
proof -
  let ?es = "[\<lparr>indexPatterns = [\<lparr>label = ''logs-*''\<rparr>],
       allowedActions = [\<lparr>label = ''read''\<rparr>, \<lparr>label = ''search''\<rparr>],
       docLevelSecurity = ''{match_all}'',
       fieldLevelSecurityMethod = Exclude,
       fieldLevelSecurityFields = [\<lparr>label = ''a''\<rparr>, \<lparr>label = ''b''\<rparr>],
       maskedFields = [\<lparr>label = ''ssn''\<rparr>]\<rparr>]"
  have facts: "packFieldLevelSecurity Exclude [\<lparr>label = ''a''\<rparr>, \<lparr>label = ''b''\<rparr>] = [''~a'', ''~b'']
      \<and> length (unbuildIndexPermissionState ?es) = 1
      \<and> fls (unbuildIndexPermissionState ?es ! 0) =
          packFieldLevelSecurity Exclude [\<lparr>label = ''a''\<rparr>, \<lparr>label = ''b''\<rparr>]
      \<and> index_patterns (unbuildIndexPermissionState ?es ! 0) = [''logs-*'']
      \<and> masked_fields (unbuildIndexPermissionState ?es ! 0) = [''ssn'']
      \<and> allowed_actions (unbuildIndexPermissionState ?es ! 0) = [''read'', ''search'']
      \<and> dls (unbuildIndexPermissionState ?es ! 0) = ''{match_all}''"
    using pack_and_unbuild [of "[\<lparr>label = ''a''\<rparr>, \<lparr>label = ''b''\<rparr>]" "''a''" "''b''" ?es]
    by (simp add: comboBoxOptionToString_def)
  then obtain q where q: "unbuildIndexPermissionState ?es = [q]"
    by (auto simp: length_Suc_conv)
  from facts show ?thesis
    unfolding q by simp
qed

section \<open>Round trip from the panel state\<close>

text \<open>
  C9. A state entry with the method exclude and no field does not carry its method
  through the wire shape: packing no field under exclude gives the empty list, so
  unbuilding such an entry and building the state again gives the method include.
  The entry of \<open>getEmptyIndexPermission\<close> is one of them.
\<close>

theorem exclude_without_fields_becomes_include:
  assumes "fieldLevelSecurityMethod e = Exclude"
    and "fieldLevelSecurityFields e = []"
  shows "packFieldLevelSecurity Exclude [] = []
    \<and> map fieldLevelSecurityMethod
          (buildIndexPermissionState (unbuildIndexPermissionState [e])) = [Include]"
proof -
  have empty: "packFieldLevelSecurity Exclude [] = []"
    by (simp add: packFieldLevelSecurity_def)
  have "map fls (unbuildIndexPermissionState [e]) = [[]]"
    using assms by (simp add: unbuildIndexPermissionState_def empty)
  then have "map fieldLevelSecurityMethod
      (buildIndexPermissionState (unbuildIndexPermissionState [e])) =
        [getFieldLevelSecurityMethod []]"
    by (simp add: buildIndexPermissionState_def unbuildIndexPermissionState_def)
  with empty show ?thesis
    by (simp add: getFieldLevelSecurityMethod_def)
qed

theorem exclude_without_fields_becomes_include_witness:
  "fieldLevelSecurityMethod getEmptyIndexPermission = Exclude
   \<and> fieldLevelSecurityFields getEmptyIndexPermission = []
   \<and> map fieldLevelSecurityMethod
        (buildIndexPermissionState (unbuildIndexPermissionState [getEmptyIndexPermission])) =
       [Include]"
proof -
  have m: "fieldLevelSecurityMethod getEmptyIndexPermission = Exclude"
    by (simp add: getEmptyIndexPermission_def)
  have f: "fieldLevelSecurityFields getEmptyIndexPermission = []"
    by (simp add: getEmptyIndexPermission_def)
  from exclude_without_fields_becomes_include [OF m f] m f show ?thesis
    by simp
qed

section \<open>Tokens that contain the marker\<close>

text \<open>
  C10. \<open>getFieldLevelSecurityFields\<close> removes at most one leading tilde from each
  token and no tilde elsewhere: a token that is a tilde followed by \<open>r\<close> becomes \<open>r\<close>
  (whatever \<open>r\<close> starts with), any other token is unchanged, and the result has the
  length and the order of the input. So \<open>~~a\<close> becomes \<open>~a\<close> and \<open>a~b\<close> stays.
\<close>

theorem getFieldLevelSecurityFields_strips_one_tilde:
  "length (getFieldLevelSecurityFields ts) = length ts
   \<and> (\<forall>i<length ts.
         (\<forall>r. ts ! i = CHR ''~'' # r \<longrightarrow>
            getFieldLevelSecurityFields ts ! i = stringToComboBoxOption r)
         \<and> ((\<forall>r. ts ! i \<noteq> CHR ''~'' # r) \<longrightarrow>
            getFieldLevelSecurityFields ts ! i = stringToComboBoxOption (ts ! i)))
   \<and> getFieldLevelSecurityFields [''~~a'', ''a~b''] =
       [stringToComboBoxOption ''~a'', stringToComboBoxOption ''a~b'']"
proof -
  have len: "length (getFieldLevelSecurityFields ts) = length ts"
    by (simp add: getFieldLevelSecurityFields_def)
  have unmarked: "replaceLeadingTilde t = t" if "\<forall>r. t \<noteq> CHR ''~'' # r" for t
    using that by (cases t) auto
  have nth: "getFieldLevelSecurityFields ts ! i =
      stringToComboBoxOption (replaceLeadingTilde (ts ! i))" if "i < length ts" for i
    using that by (simp add: getFieldLevelSecurityFields_def)
  have each: "\<forall>i<length ts.
         (\<forall>r. ts ! i = CHR ''~'' # r \<longrightarrow>
            getFieldLevelSecurityFields ts ! i = stringToComboBoxOption r)
         \<and> ((\<forall>r. ts ! i \<noteq> CHR ''~'' # r) \<longrightarrow>
            getFieldLevelSecurityFields ts ! i = stringToComboBoxOption (ts ! i))"
    by (auto simp: nth unmarked)
  have "getFieldLevelSecurityFields [''~~a'', ''a~b''] =
       [stringToComboBoxOption ''~a'', stringToComboBoxOption ''a~b'']"
    by (simp add: getFieldLevelSecurityFields_def)
  with len each show ?thesis
    by blast
qed

theorem getFieldLevelSecurityFields_strips_one_tilde_witness:
  "getFieldLevelSecurityFields [''~~~x'', ''x~'', ''~'', ''''] =
     [stringToComboBoxOption ''~~x'', stringToComboBoxOption ''x~'',
      stringToComboBoxOption '''', stringToComboBoxOption '''']"
proof -
  let ?ts = "[''~~~x'', ''x~'', ''~'', '''']"
  have len: "length (getFieldLevelSecurityFields ?ts) = 4"
    using getFieldLevelSecurityFields_strips_one_tilde [of ?ts] by simp
  have each: "\<forall>i<length ?ts.
         (\<forall>r. ?ts ! i = CHR ''~'' # r \<longrightarrow>
            getFieldLevelSecurityFields ?ts ! i = stringToComboBoxOption r)
         \<and> ((\<forall>r. ?ts ! i \<noteq> CHR ''~'' # r) \<longrightarrow>
            getFieldLevelSecurityFields ?ts ! i = stringToComboBoxOption (?ts ! i))"
    using getFieldLevelSecurityFields_strips_one_tilde [of ?ts] by blast
  have e0: "getFieldLevelSecurityFields ?ts ! 0 = stringToComboBoxOption ''~~x''"
    using each [rule_format, of 0] by simp
  have e1: "getFieldLevelSecurityFields ?ts ! 1 = stringToComboBoxOption ''x~''"
    using each [rule_format, of 1] by simp
  have e2: "getFieldLevelSecurityFields ?ts ! 2 = stringToComboBoxOption ''''"
    using each [rule_format, of 2] by simp
  have e3: "getFieldLevelSecurityFields ?ts ! 3 = stringToComboBoxOption ''''"
    using each [rule_format, of 3] by simp
  obtain a b c d where abcd: "getFieldLevelSecurityFields ?ts = [a, b, c, d]"
    using len by (auto simp: length_Suc_conv eval_nat_numeral)
  from e0 e1 e2 e3 show ?thesis
    unfolding abcd by (simp add: eval_nat_numeral)
qed

text \<open>
  C6, as the spec states it: every \<open>fls\<close> list, whatever its tokens, comes back
  unaltered from \<open>buildIndexPermissionState\<close> followed by
  \<open>unbuildIndexPermissionState\<close>. The list \<open>[a, ~b]\<close> does not: it comes back as
  \<open>[~a, ~b]\<close>.
\<close>

theorem unbuild_build_mixed_fls_counterexample:
  "map fls (unbuildIndexPermissionState (buildIndexPermissionState
      [\<lparr>index_patterns = [''logs-*''], dls = '''', fls = [''a'', ''~b''],
        masked_fields = [], allowed_actions = []\<rparr>])) = [[''~a'', ''~b'']]
   \<and> [''~a'', ''~b''] \<noteq> [''a'', ''~b'']"
  by (simp add: unbuild_build_single pack_after_get startsWith_def)

text \<open>
  C6, amended. For every \<open>fls\<close> list of arbitrary token strings, the list comes
  back unaltered exactly when every token or no token starts with the tilde; a
  tilde anywhere else in a token, or a second leading tilde, changes nothing. In a
  list where some token starts with the tilde, the tokens that start with it come
  back unaltered and every other token comes back with a tilde prepended.
\<close>

theorem unbuild_build_fls_literal_iff:
  "map fls (unbuildIndexPermissionState (buildIndexPermissionState [p])) =
     [if \<exists>t\<in>set (fls p). startsWith t ''~''
      then map (\<lambda>t. if startsWith t ''~'' then t else CHR ''~'' # t) (fls p)
      else fls p]
   \<and> (map fls (unbuildIndexPermissionState (buildIndexPermissionState [p])) = [fls p]
        \<longleftrightarrow> (\<forall>t\<in>set (fls p). startsWith t ''~'') \<or> (\<forall>t\<in>set (fls p). \<not> startsWith t ''~''))"
proof -
  let ?returned = "packFieldLevelSecurity (getFieldLevelSecurityMethod (fls p))
                 (getFieldLevelSecurityFields (fls p))"
  have single: "map fls (unbuildIndexPermissionState (buildIndexPermissionState [p])) = [?returned]"
    by (simp add: unbuild_build_single)
  have remark: "CHR ''~'' # replaceLeadingTilde t = (if startsWith t ''~'' then t else CHR ''~'' # t)"
    for t
    by (simp add: replaceLeadingTilde_marked replaceLeadingTilde_unmarked)
  have general: "?returned =
     (if \<exists>t\<in>set (fls p). startsWith t ''~''
      then map (\<lambda>t. if startsWith t ''~'' then t else CHR ''~'' # t) (fls p)
      else fls p)"
  proof (cases "\<exists>t\<in>set (fls p). startsWith t ''~''")
    case True
    then show ?thesis
      by (simp add: pack_after_get remark comp_def)
  next
    case False
    then have "map replaceLeadingTilde (fls p) = fls p"
      by (simp add: map_replaceLeadingTilde_unmarked)
    with False show ?thesis
      by (simp add: pack_after_get)
  qed
  have literal: "?returned = fls p
      \<longleftrightarrow> (\<forall>t\<in>set (fls p). startsWith t ''~'') \<or> (\<forall>t\<in>set (fls p). \<not> startsWith t ''~'')"
  proof
    assume same: "?returned = fls p"
    show "(\<forall>t\<in>set (fls p). startsWith t ''~'') \<or> (\<forall>t\<in>set (fls p). \<not> startsWith t ''~'')"
    proof (rule ccontr)
      assume "\<not> ?thesis"
      then obtain t u where t: "t \<in> set (fls p)" "\<not> startsWith t ''~''"
        and u: "u \<in> set (fls p)" "startsWith u ''~''"
        by blast
      from u have some: "\<exists>t\<in>set (fls p). startsWith t ''~''"
        by blast
      have "map (\<lambda>t. if startsWith t ''~'' then t else CHR ''~'' # t) (fls p) = ?returned"
        unfolding general using some by simp
      with same
      have "map (\<lambda>t. if startsWith t ''~'' then t else CHR ''~'' # t) (fls p) = map (\<lambda>t. t) (fls p)"
        by simp
      then have "\<forall>t\<in>set (fls p). (if startsWith t ''~'' then t else CHR ''~'' # t) = t"
        by (simp only: map_eq_conv)
      with t show False
        by auto
    qed
  next
    assume "(\<forall>t\<in>set (fls p). startsWith t ''~'') \<or> (\<forall>t\<in>set (fls p). \<not> startsWith t ''~'')"
    then show "?returned = fls p"
      by (intro pack_after_get_uniform) blast
  qed
  from single general literal show ?thesis
    by simp
qed

theorem unbuild_build_fls_literal_iff_witness:
  "map fls (unbuildIndexPermissionState (buildIndexPermissionState
      [\<lparr>index_patterns = [''logs-*''], dls = '''', fls = [''~~a'', ''~b~c''],
        masked_fields = [], allowed_actions = []\<rparr>])) = [[''~~a'', ''~b~c'']]
   \<and> map fls (unbuildIndexPermissionState (buildIndexPermissionState
      [\<lparr>index_patterns = [''logs-*''], dls = '''', fls = [''a~'', ''~b'', ''c''],
        masked_fields = [], allowed_actions = []\<rparr>])) = [[''~a~'', ''~b'', ''~c'']]"
proof -
  let ?p = "\<lparr>index_patterns = [''logs-*''], dls = '''', fls = [''~~a'', ''~b~c''],
        masked_fields = [], allowed_actions = []\<rparr>"
  let ?q = "\<lparr>index_patterns = [''logs-*''], dls = '''', fls = [''a~'', ''~b'', ''c''],
        masked_fields = [], allowed_actions = []\<rparr>"
  have "\<forall>t\<in>set (fls ?p). startsWith t ''~''"
    by (simp add: startsWith_def)
  then have uniform: "map fls (unbuildIndexPermissionState (buildIndexPermissionState [?p])) =
      [fls ?p]"
    using unbuild_build_fls_literal_iff [of ?p] by blast
  have mixed: "map fls (unbuildIndexPermissionState (buildIndexPermissionState [?q])) =
      [[''~a~'', ''~b'', ''~c'']]"
    using unbuild_build_fls_literal_iff [of ?q] by (simp add: startsWith_def)
  from uniform mixed show ?thesis
    by simp
qed

section \<open>The panel: summary text, add and remove\<close>

lemma join_empty_iff:
  "sep \<noteq> [] \<Longrightarrow> join xs sep = [] \<longleftrightarrow> xs = [] \<or> xs = [[]]"
  by (induction xs sep rule: join.induct) simp_all

lemma generateIndexPermissionPanels_length:
  "length (generateIndexPermissionPanels indexPermissions) = length indexPermissions"
  by (simp add: generateIndexPermissionPanels_def)

lemma generateIndexPermissionPanels_nth:
  assumes "i < length indexPermissions"
  shows "generateIndexPermissionPanels indexPermissions ! i =
     \<lparr>buttonContent =
        orElse (join (map comboBoxOptionToString (indexPatterns (indexPermissions ! i))) '', '')
          ''Add index permission'',
      onRemoveClick = (\<lambda>prevState. removeElementFromArray prevState i)\<rparr>"
  using assms by (simp add: generateIndexPermissionPanels_def)

lemma removeElementFromArray_length:
  "i < length xs \<Longrightarrow> length (removeElementFromArray xs i) = length xs - 1"
  by (simp add: removeElementFromArray_def)

lemma removeElementFromArray_before:
  "i < length xs \<Longrightarrow> j < i \<Longrightarrow> removeElementFromArray xs i ! j = xs ! j"
  by (simp add: removeElementFromArray_def nth_append)

lemma removeElementFromArray_after:
  "i \<le> j \<Longrightarrow> j < length xs - 1 \<Longrightarrow> removeElementFromArray xs i ! j = xs ! Suc j"
  by (auto simp: removeElementFromArray_def nth_append min_def)

text \<open>
  C5. \<open>getEmptyIndexPermission\<close> is the entry with no index pattern, no allowed
  action, the empty document level security, the method exclude, no field and no
  masked field; the handler of the add button hands exactly this entry to the
  append operation, so it is the last entry of the array afterwards.
\<close>

theorem getEmptyIndexPermission_default:
  "getEmptyIndexPermission =
     \<lparr>indexPatterns = [], allowedActions = [], docLevelSecurity = '''',
      fieldLevelSecurityMethod = Exclude, fieldLevelSecurityFields = [], maskedFields = []\<rparr>
   \<and> onAddClick (IndexPermissionPanel state) prevState =
       appendElementToArray prevState
         \<lparr>indexPatterns = [], allowedActions = [], docLevelSecurity = '''',
          fieldLevelSecurityMethod = Exclude, fieldLevelSecurityFields = [], maskedFields = []\<rparr>
   \<and> last (onAddClick (IndexPermissionPanel state) prevState) =
       \<lparr>indexPatterns = [], allowedActions = [], docLevelSecurity = '''',
        fieldLevelSecurityMethod = Exclude, fieldLevelSecurityFields = [], maskedFields = []\<rparr>"
  by (simp add: getEmptyIndexPermission_def IndexPermissionPanel_def appendElementToArray_def)

text \<open>
  C7. The add action appends exactly one entry to the array: the length grows by
  one, the entries that were there stay where they are, and the new last entry has
  the default fields of \<open>getEmptyIndexPermission\<close>. The remove action of the section
  at index \<open>i\<close> removes exactly the entry at \<open>i\<close>: the length shrinks by one, the
  entries before \<open>i\<close> stay where they are and every later entry moves one place
  down, so the remaining entries keep their order.
\<close>

theorem add_and_remove_entry:
  "length (onAddClick (IndexPermissionPanel state) state) = length state + 1
   \<and> (\<forall>j<length state. onAddClick (IndexPermissionPanel state) state ! j = state ! j)
   \<and> onAddClick (IndexPermissionPanel state) state ! length state =
       \<lparr>indexPatterns = [], allowedActions = [], docLevelSecurity = '''',
        fieldLevelSecurityMethod = Exclude, fieldLevelSecurityFields = [], maskedFields = []\<rparr>
   \<and> length (panels (IndexPermissionPanel state)) = length state
   \<and> (\<forall>i<length state.
         length (onRemoveClick (panels (IndexPermissionPanel state) ! i) state) = length state - 1
         \<and> (\<forall>j<i. onRemoveClick (panels (IndexPermissionPanel state) ! i) state ! j = state ! j)
         \<and> (\<forall>j. i \<le> j \<and> j < length state - 1 \<longrightarrow>
               onRemoveClick (panels (IndexPermissionPanel state) ! i) state ! j =
                 state ! Suc j))"
proof -
  have add: "onAddClick (IndexPermissionPanel state) state = state @ [getEmptyIndexPermission]"
    by (simp add: IndexPermissionPanel_def appendElementToArray_def)
  have remove: "onRemoveClick (panels (IndexPermissionPanel state) ! i) state =
      removeElementFromArray state i" if "i < length state" for i
    using that by (simp add: IndexPermissionPanel_def generateIndexPermissionPanels_nth)
  have added: "length (onAddClick (IndexPermissionPanel state) state) = length state + 1
   \<and> (\<forall>j<length state. onAddClick (IndexPermissionPanel state) state ! j = state ! j)
   \<and> onAddClick (IndexPermissionPanel state) state ! length state =
       \<lparr>indexPatterns = [], allowedActions = [], docLevelSecurity = '''',
        fieldLevelSecurityMethod = Exclude, fieldLevelSecurityFields = [], maskedFields = []\<rparr>"
    by (simp add: add nth_append getEmptyIndexPermission_def)
  have sections: "length (panels (IndexPermissionPanel state)) = length state"
    by (simp add: IndexPermissionPanel_def generateIndexPermissionPanels_length)
  have removed: "\<forall>i<length state.
         length (onRemoveClick (panels (IndexPermissionPanel state) ! i) state) = length state - 1
         \<and> (\<forall>j<i. onRemoveClick (panels (IndexPermissionPanel state) ! i) state ! j = state ! j)
         \<and> (\<forall>j. i \<le> j \<and> j < length state - 1 \<longrightarrow>
               onRemoveClick (panels (IndexPermissionPanel state) ! i) state ! j =
                 state ! Suc j)"
    by (simp add: remove removeElementFromArray_length removeElementFromArray_before
        removeElementFromArray_after)
  from added sections removed show ?thesis
    by blast
qed

theorem add_and_remove_entry_witness:
  "length (onAddClick (IndexPermissionPanel
      [getEmptyIndexPermission\<lparr>docLevelSecurity := ''a''\<rparr>,
       getEmptyIndexPermission\<lparr>docLevelSecurity := ''b''\<rparr>,
       getEmptyIndexPermission\<lparr>docLevelSecurity := ''c''\<rparr>])
      [getEmptyIndexPermission\<lparr>docLevelSecurity := ''a''\<rparr>,
       getEmptyIndexPermission\<lparr>docLevelSecurity := ''b''\<rparr>,
       getEmptyIndexPermission\<lparr>docLevelSecurity := ''c''\<rparr>]) = 4
   \<and> onAddClick (IndexPermissionPanel
      [getEmptyIndexPermission\<lparr>docLevelSecurity := ''a''\<rparr>,
       getEmptyIndexPermission\<lparr>docLevelSecurity := ''b''\<rparr>,
       getEmptyIndexPermission\<lparr>docLevelSecurity := ''c''\<rparr>])
      [getEmptyIndexPermission\<lparr>docLevelSecurity := ''a''\<rparr>,
       getEmptyIndexPermission\<lparr>docLevelSecurity := ''b''\<rparr>,
       getEmptyIndexPermission\<lparr>docLevelSecurity := ''c''\<rparr>] ! 3 =
      \<lparr>indexPatterns = [], allowedActions = [], docLevelSecurity = '''',
       fieldLevelSecurityMethod = Exclude, fieldLevelSecurityFields = [], maskedFields = []\<rparr>
   \<and> length (onRemoveClick (panels (IndexPermissionPanel
      [getEmptyIndexPermission\<lparr>docLevelSecurity := ''a''\<rparr>,
       getEmptyIndexPermission\<lparr>docLevelSecurity := ''b''\<rparr>,
       getEmptyIndexPermission\<lparr>docLevelSecurity := ''c''\<rparr>]) ! 1)
      [getEmptyIndexPermission\<lparr>docLevelSecurity := ''a''\<rparr>,
       getEmptyIndexPermission\<lparr>docLevelSecurity := ''b''\<rparr>,
       getEmptyIndexPermission\<lparr>docLevelSecurity := ''c''\<rparr>]) = 2
   \<and> onRemoveClick (panels (IndexPermissionPanel
      [getEmptyIndexPermission\<lparr>docLevelSecurity := ''a''\<rparr>,
       getEmptyIndexPermission\<lparr>docLevelSecurity := ''b''\<rparr>,
       getEmptyIndexPermission\<lparr>docLevelSecurity := ''c''\<rparr>]) ! 1)
      [getEmptyIndexPermission\<lparr>docLevelSecurity := ''a''\<rparr>,
       getEmptyIndexPermission\<lparr>docLevelSecurity := ''b''\<rparr>,
       getEmptyIndexPermission\<lparr>docLevelSecurity := ''c''\<rparr>] ! 0 =
      getEmptyIndexPermission\<lparr>docLevelSecurity := ''a''\<rparr>
   \<and> onRemoveClick (panels (IndexPermissionPanel
      [getEmptyIndexPermission\<lparr>docLevelSecurity := ''a''\<rparr>,
       getEmptyIndexPermission\<lparr>docLevelSecurity := ''b''\<rparr>,
       getEmptyIndexPermission\<lparr>docLevelSecurity := ''c''\<rparr>]) ! 1)
      [getEmptyIndexPermission\<lparr>docLevelSecurity := ''a''\<rparr>,
       getEmptyIndexPermission\<lparr>docLevelSecurity := ''b''\<rparr>,
       getEmptyIndexPermission\<lparr>docLevelSecurity := ''c''\<rparr>] ! 1 =
      getEmptyIndexPermission\<lparr>docLevelSecurity := ''c''\<rparr>"
proof -
  let ?a = "getEmptyIndexPermission\<lparr>docLevelSecurity := ''a''\<rparr>"
  let ?b = "getEmptyIndexPermission\<lparr>docLevelSecurity := ''b''\<rparr>"
  let ?c = "getEmptyIndexPermission\<lparr>docLevelSecurity := ''c''\<rparr>"
  let ?state = "[?a, ?b, ?c]"
  let ?removed = "onRemoveClick (panels (IndexPermissionPanel ?state) ! 1) ?state"
  note facts = add_and_remove_entry [of ?state]
  have len_added: "length (onAddClick (IndexPermissionPanel ?state) ?state) = 4"
    using facts [THEN conjunct1] by simp
  have new: "onAddClick (IndexPermissionPanel ?state) ?state ! 3 =
        \<lparr>indexPatterns = [], allowedActions = [], docLevelSecurity = '''',
         fieldLevelSecurityMethod = Exclude, fieldLevelSecurityFields = [], maskedFields = []\<rparr>"
    using facts [THEN conjunct2, THEN conjunct2, THEN conjunct1]
    by (simp add: numeral_3_eq_3)
  have "(1::nat) < length ?state"
    by simp
  note at1 = facts [THEN conjunct2, THEN conjunct2, THEN conjunct2, THEN conjunct2,
      rule_format, OF this]
  have len: "length ?removed = 2"
    using at1 [THEN conjunct1] by simp
  have r0: "?removed ! 0 = ?a"
    using at1 [THEN conjunct2, THEN conjunct1, rule_format, of 0] by simp
  have r1: "?removed ! 1 = ?c"
    using at1 [THEN conjunct2, THEN conjunct2, rule_format, of 1] by simp
  from len_added new len r0 r1 show ?thesis
    by blast
qed

text \<open>
  C8, as the spec states it: the placeholder is shown whenever every index pattern
  of the entry is the empty string. An entry with two empty patterns has the
  summary text of the separator alone, and no placeholder.
\<close>

theorem two_empty_patterns_counterexample:
  "comboBoxOptionToString \<lparr>label = ''''\<rparr> = ''''
   \<and> buttonContent (generateIndexPermissionPanels
        [\<lparr>indexPatterns = [\<lparr>label = ''''\<rparr>, \<lparr>label = ''''\<rparr>], allowedActions = [],
          docLevelSecurity = '''', fieldLevelSecurityMethod = Include,
          fieldLevelSecurityFields = [], maskedFields = []\<rparr>] ! 0) = '', ''
   \<and> '', '' \<noteq> ''Add index permission''"
  by (simp add: generateIndexPermissionPanels_nth comboBoxOptionToString_def orElse_def)

text \<open>
  C8, amended. For each permission entry, the summary text of its collapsible
  section is the string forms of its index patterns joined by a comma and a space,
  and the placeholder is shown in its place exactly when that joined string is
  empty; the joined string is empty exactly when the entry has no index pattern or
  has a single index pattern whose string form is empty.
\<close>

theorem accordion_summary_text:
  "length (generateIndexPermissionPanels ps) = length ps
   \<and> (\<forall>i<length ps.
         buttonContent (generateIndexPermissionPanels ps ! i) =
           (if join (map comboBoxOptionToString (indexPatterns (ps ! i))) '', '' = ''''
            then ''Add index permission''
            else join (map comboBoxOptionToString (indexPatterns (ps ! i))) '', '')
         \<and> (join (map comboBoxOptionToString (indexPatterns (ps ! i))) '', '' = ''''
              \<longleftrightarrow> indexPatterns (ps ! i) = []
                \<or> map comboBoxOptionToString (indexPatterns (ps ! i)) = ['''']))
   \<and> join [a, b, c] '', '' = a @ '', '' @ b @ '', '' @ c"
proof -
  have summary: "buttonContent (generateIndexPermissionPanels ps ! i) =
           (if join (map comboBoxOptionToString (indexPatterns (ps ! i))) '', '' = ''''
            then ''Add index permission''
            else join (map comboBoxOptionToString (indexPatterns (ps ! i))) '', '')"
    if "i < length ps" for i
    using that by (simp add: generateIndexPermissionPanels_nth orElse_def)
  have empty: "join (map comboBoxOptionToString opts) '', '' = ''''
      \<longleftrightarrow> opts = [] \<or> map comboBoxOptionToString opts = ['''']" for opts
    using join_empty_iff [of "'', ''" "map comboBoxOptionToString opts"] by simp
  show ?thesis
  proof (intro conjI allI impI)
    show "length (generateIndexPermissionPanels ps) = length ps"
      by (rule generateIndexPermissionPanels_length)
  next
    fix i
    assume "i < length ps"
    then show "buttonContent (generateIndexPermissionPanels ps ! i) =
           (if join (map comboBoxOptionToString (indexPatterns (ps ! i))) '', '' = ''''
            then ''Add index permission''
            else join (map comboBoxOptionToString (indexPatterns (ps ! i))) '', '')"
      by (rule summary)
  next
    fix i
    show "join (map comboBoxOptionToString (indexPatterns (ps ! i))) '', '' = ''''
              \<longleftrightarrow> indexPatterns (ps ! i) = []
                \<or> map comboBoxOptionToString (indexPatterns (ps ! i)) = ['''']"
      by (rule empty)
  next
    show "join [a, b, c] '', '' = a @ '', '' @ b @ '', '' @ c"
      by simp
  qed
qed

theorem accordion_summary_text_witness:
  "map buttonContent (generateIndexPermissionPanels
     [\<lparr>indexPatterns = [\<lparr>label = ''''\<rparr>], allowedActions = [],
       docLevelSecurity = '''', fieldLevelSecurityMethod = Include,
       fieldLevelSecurityFields = [], maskedFields = []\<rparr>,
      \<lparr>indexPatterns = [\<lparr>label = ''logs-*''\<rparr>, \<lparr>label = ''metrics''\<rparr>], allowedActions = [],
       docLevelSecurity = '''', fieldLevelSecurityMethod = Include,
       fieldLevelSecurityFields = [], maskedFields = []\<rparr>]) =
     [''Add index permission'', ''logs-*, metrics'']"
proof -
  let ?ps = "[\<lparr>indexPatterns = [\<lparr>label = ''''\<rparr>], allowedActions = [],
       docLevelSecurity = '''', fieldLevelSecurityMethod = Include,
       fieldLevelSecurityFields = [], maskedFields = []\<rparr>,
      \<lparr>indexPatterns = [\<lparr>label = ''logs-*''\<rparr>, \<lparr>label = ''metrics''\<rparr>], allowedActions = [],
       docLevelSecurity = '''', fieldLevelSecurityMethod = Include,
       fieldLevelSecurityFields = [], maskedFields = []\<rparr>]"
  note facts = accordion_summary_text [of ?ps]
  note each = facts [THEN conjunct2, THEN conjunct1, rule_format]
  have len: "length (generateIndexPermissionPanels ?ps) = 2"
    using facts [THEN conjunct1] by simp
  have b0: "buttonContent (generateIndexPermissionPanels ?ps ! 0) = ''Add index permission''"
    using each [of 0, THEN conjunct1] by (simp add: comboBoxOptionToString_def)
  have b1: "buttonContent (generateIndexPermissionPanels ?ps ! 1) = ''logs-*, metrics''"
    using each [of 1, THEN conjunct1] by (simp add: comboBoxOptionToString_def)
  obtain x y where xy: "generateIndexPermissionPanels ?ps = [x, y]"
    using len by (auto simp: length_Suc_conv numeral_2_eq_2)
  from b0 b1 show ?thesis
    unfolding xy by simp
qed

end
